theory Spec2Isabelle
  imports Complex_Main "HOL-Library.Multiset"
begin

section \<open>Data model of the sync worker (src/unnamed/part\_000)\<close>

text \<open>
  The worker keeps one JSON document per room. Currency amounts, prices, quantities and
  timestamps are JavaScript numbers; they are modelled as integers, the "integer currency
  units" of the data model (fractional, NaN and non-numeric values are outside the model).
  The source computes with IEEE doubles: as long as every number it reads or computes is
  an integer of magnitude at most \<open>2^53\<close> its arithmetic is exact and is the integer
  arithmetic written here, and beyond that range the doubles round. The theorems that
  state the value of a balance therefore carry hypotheses that keep every number they
  involve, intermediate results included, in the exact range; the counters
  (\<^verbatim>\<open>sold\<close>, \<^verbatim>\<open>qty\<close>, \<^verbatim>\<open>vTick\<close>) are taken to stay in it. Arrays
  are lists. An object obtained with \<^verbatim>\<open>find\<close> is a
  reference into its array, so it is modelled as the index of the first match, and every
  assignment through the reference is an update of the array at that index, in the order
  the source performs them.
\<close>

record user =
  u_id :: string
  u_name :: string
  passHash :: string
  balance :: int
  streakCount :: int
  lastMorningDate :: "int option"
    \<comment> \<open>the UTC calendar day as a day number since the epoch; \<open>None\<close> is the empty string\<close>

record listing =
  l_id :: string
  l_title :: string
  price :: int
  l_desc :: string
  sellerId :: string
  active :: bool
  l_ts :: int
  qty :: int
  sold :: int

record right =
  r_id :: string
  r_listingId :: string
  r_title :: string
  buyerId :: string
  r_sellerId :: string
  r_ts :: int
  status :: string
  executed :: bool
  rejectionCount :: "int option"

record tx =
  t_id :: string
  t_ts :: int
  t_type :: string
  t_from :: "string option"
  t_to :: "string option"
  t_amount :: "int option"
  t_listingId :: "string option"
  t_title :: "string option"
  t_memo :: string
    \<comment> \<open>only the caller's memo of a transfer is kept; the fixed memo texts are left out\<close>

record notification =
  n_id :: string
  n_timestamp :: int
  n_recipientId :: string
  n_content :: string
  n_type :: string
  n_isHtml :: bool

record domain_state =
  users :: "user list"
  txs :: "tx list"
  listings :: "listing list"
  rights :: "right list"
  notifications :: "notification list"
  vTick :: int

text \<open>
  The payload \<^verbatim>\<open>data\<close> of an operation: every field some handler destructures. A string
  field that is absent is the empty string and an absent \<^verbatim>\<open>qty\<close> or refund
  \<^verbatim>\<open>amount\<close> is 0 (the source tests them for truthiness or positivity only). An absent
  \<^verbatim>\<open>roll\<close> compares false with every threshold, as any roll of 1 or more does.
\<close>

record payload =
  toId :: string
  amount :: int
  memo :: string
  listingId :: string
  title :: string
  p_price :: int
  desc :: string
  p_qty :: int
  name :: string
  p_passHash :: string
  roll :: rat
  rightId :: string
  action :: string
  recipientId :: string
  content :: string
  msgType :: string
  isHtml :: bool

record operation =
  op_id :: string
  op_type :: string
  op_data :: "payload option"
    \<comment> \<open>\<open>None\<close>: the operation has no \<^verbatim>\<open>data\<close>, destructuring it throws\<close>
  op_timestamp :: int
  op_userId :: string
  op_silent :: bool
    \<comment> \<open>\<^verbatim>\<open>meta?.silent\<close>\<close>

record processedOp =
  p_id :: string
  p_timestamp :: int
  p_type :: string
  p_userId :: string

record conflict =
  operationId :: string
  c_type :: string
  c_timestamp :: int
  c_userId :: string
    \<comment> \<open>the human-readable message is left out\<close>

record snapshot =
  cur_state :: domain_state
  cur_processedOps :: "processedOp list"
  cur_conflicts :: "conflict list"

record result =
  state :: domain_state
  processedOps :: "processedOp list"
  conflicts :: "conflict list"
  newConflicts :: "conflict list"
    \<comment> \<open>the lists \<^verbatim>\<open>newUsers\<close>, \<^verbatim>\<open>newTxs\<close>, \<^verbatim>\<open>newRights\<close>, \<^verbatim>\<open>updatedListings\<close> and
       \<^verbatim>\<open>deletedListings\<close> hold references into the state and are left out\<close>

datatype exn = TypeError | RangeError

datatype outcome = Success | Conflict string

type_synonym handled = "exn + (nat \<times> domain_state \<times> outcome)"

text \<open>
  \<^verbatim>\<open>generateId()\<close> draws a random string. The values it returns during one merge pass
  are a parameter \<open>gen\<close>: the \<open>k\<close>-th call returns \<open>gen k\<close>, and every handler takes the
  number of calls made so far and returns the new count.
\<close>

section \<open>Helpers\<close>

fun findIndex :: "('a \<Rightarrow> bool) \<Rightarrow> 'a list \<Rightarrow> nat option" where
  "findIndex P [] = None"
| "findIndex P (x # xs) = (if P x then Some 0 else map_option Suc (findIndex P xs))"

definition upd :: "nat \<Rightarrow> ('a \<Rightarrow> 'a) \<Rightarrow> 'a list \<Rightarrow> 'a list" where
  "upd i f xs = xs[i := f (xs ! i)]"

definition credit :: "int \<Rightarrow> user \<Rightarrow> user" where
  "credit d u = u\<lparr>balance := balance u + d\<rparr>"

definition orElse :: "int \<Rightarrow> int \<Rightarrow> int" where
  \<comment> \<open>\<^verbatim>\<open>x || d\<close> on numbers\<close>
  "orElse x d = (if x = 0 then d else x)"

definition JACKPOT :: string where
  \<comment> \<open>the reserved name of the house account, as UTF-8 bytes\<close>
  "JACKPOT = map char_of
     [227, 130, 184, 227, 131, 163, 227, 131, 131, 227, 130, 175, 227, 131, 157,
      227, 131, 131, 227, 131, 136 :: nat]"

definition pushTx :: "bool \<Rightarrow> tx \<Rightarrow> domain_state \<Rightarrow> domain_state" where
  \<comment> \<open>\<^verbatim>\<open>if (!meta?.silent) state.txs.unshift(tx)\<close>\<close>
  "pushTx silent t st = (if silent then st else st\<lparr>txs := t # txs st\<rparr>)"

definition bump :: "domain_state \<Rightarrow> domain_state" where
  \<comment> \<open>\<^verbatim>\<open>state.vTick = (state.vTick || 0) + 1\<close>\<close>
  "bump st = st\<lparr>vTick := orElse (vTick st) 0 + 1\<rparr>"

definition mkTx :: "string \<Rightarrow> int \<Rightarrow> string \<Rightarrow> string option \<Rightarrow> string option \<Rightarrow>
    int option \<Rightarrow> string option \<Rightarrow> string option \<Rightarrow> tx" where
  "mkTx i ts ty fr to' am lst ttl =
     \<lparr>t_id = i, t_ts = ts, t_type = ty, t_from = fr, t_to = to', t_amount = am,
      t_listingId = lst, t_title = ttl, t_memo = []\<rparr>"

section \<open>The operation handlers\<close>

definition applySendMessage :: "(nat \<Rightarrow> string) \<Rightarrow> nat \<Rightarrow> domain_state \<Rightarrow> payload option \<Rightarrow>
    int \<Rightarrow> handled" where
  "applySendMessage gen n st data timestamp =
     (case data of
        None \<Rightarrow> Inl TypeError
      | Some d \<Rightarrow>
          if recipientId d = [] \<or> content d = [] \<or> msgType d = []
          then Inr (n, st, Conflict ''bad_request'')
          else Inr (Suc n,
                 st\<lparr>notifications := notifications st @
                      [\<lparr>n_id = gen n, n_timestamp = timestamp, n_recipientId = recipientId d,
                        n_content = content d, n_type = msgType d, n_isHtml = isHtml d\<rparr>]\<rparr>,
                 Success))"

definition applyTransfer :: "(nat \<Rightarrow> string) \<Rightarrow> nat \<Rightarrow> domain_state \<Rightarrow> payload option \<Rightarrow>
    int \<Rightarrow> string \<Rightarrow> bool \<Rightarrow> handled" where
  "applyTransfer gen n st data timestamp userId silent =
     (case data of
        None \<Rightarrow> Inl TypeError
      | Some d \<Rightarrow>
          (case findIndex (\<lambda>u. u_id u = userId) (users st) of
             None \<Rightarrow> Inr (n, st, Conflict ''user_not_found'')
           | Some fi \<Rightarrow>
               (case findIndex (\<lambda>u. u_id u = toId d) (users st) of
                  None \<Rightarrow> Inr (n, st, Conflict ''user_not_found'')
                | Some ti \<Rightarrow>
                    if balance (users st ! fi) < amount d
                    then Inr (n, st, Conflict ''insufficient_balance'')
                    else
                      let us1 = upd fi (credit (- amount d)) (users st);
                          us2 = upd ti (credit (amount d)) us1;
                          t = (mkTx (gen n) timestamp ''transfer'' (Some userId) (Some (toId d))
                                 (Some (amount d)) None None)\<lparr>t_memo := memo d\<rparr>
                      in Inr (Suc n, bump (pushTx silent t (st\<lparr>users := us2\<rparr>)), Success))))"

text \<open>
  The fee \<^verbatim>\<open>Math.floor(listing.price * 0.10)\<close> is \<open>price div 10\<close>, and the refund
  \<^verbatim>\<open>Math.floor(l.price * 0.90)\<close> of a cancellation is \<open>(price * 9) div 10\<close>: for an integer
  price of magnitude below \<open>2^50\<close> the double product is the exact quotient when the
  price is a multiple of ten and lies strictly between the two neighbouring integers
  otherwise, so its floor is the integer quotient rounded down, also for negative prices.
  For larger prices the two can differ by one, so every theorem that names the fee bounds
  the price by \<open>2^50\<close>; the refund enters the balances only, and no theorem below
  states a balance after a cancellation. A listing carries a numeric \<^verbatim>\<open>sold\<close> and a numeric \<^verbatim>\<open>qty\<close>
  (\<^verbatim>\<open>create_listing\<close> writes both); a listing object that lacks one of them is outside
  the model.
\<close>

definition markSold :: "listing \<Rightarrow> listing" where
  \<comment> \<open>\<^verbatim>\<open>listing.sold = (listing.sold || 0) + 1; if (listing.sold >= listing.qty) listing.active = false\<close>\<close>
  "markSold l =
     (let sold' = orElse (sold l) 0 + 1
      in l\<lparr>sold := sold', active := (if sold' \<ge> qty l then False else active l)\<rparr>)"

definition applyBuyListing :: "(nat \<Rightarrow> string) \<Rightarrow> nat \<Rightarrow> domain_state \<Rightarrow> payload option \<Rightarrow>
    int \<Rightarrow> string \<Rightarrow> bool \<Rightarrow> handled" where
  "applyBuyListing gen n st data timestamp userId silent =
     (case data of
        None \<Rightarrow> Inl TypeError
      | Some d \<Rightarrow>
          (case findIndex (\<lambda>l. l_id l = listingId d \<and> active l) (listings st) of
             None \<Rightarrow> Inr (n, st, Conflict ''listing_not_found'')
           | Some li \<Rightarrow>
               (case findIndex (\<lambda>u. u_id u = userId) (users st) of
                  None \<Rightarrow> Inr (n, st, Conflict ''buyer_not_found'')
                | Some bi \<Rightarrow>
                    let l = listings st ! li in
                    if orElse (qty l) 1 - orElse (sold l) 0 \<le> 0
                    then Inr (n, st, Conflict ''sold_out'')
                    else if balance (users st ! bi) < price l
                    then Inr (n, st, Conflict ''insufficient_balance'')
                    else if sellerId l = userId
                    then Inr (n, st, Conflict ''self_purchase'')
                    else
                      let fee = price l div 10;
                          sellerReceive = price l - fee;
                          us1 = upd bi (credit (- price l)) (users st);
                          us2 = (case findIndex (\<lambda>u. u_id u = sellerId l) (users st) of
                                   None \<Rightarrow> us1 | Some si \<Rightarrow> upd si (credit sellerReceive) us1);
                          us3 = (case findIndex (\<lambda>u. u_name u = JACKPOT) (users st) of
                                   None \<Rightarrow> us2 | Some ji \<Rightarrow> upd ji (credit fee) us2);
                          createdRight = \<lparr>r_id = gen n, r_listingId = l_id l, r_title = l_title l,
                             buyerId = userId, r_sellerId = sellerId l, r_ts = timestamp,
                             status = ''owned'', executed = False, rejectionCount = None\<rparr>;
                          t = mkTx (gen (Suc n)) timestamp ''purchase'' (Some userId)
                                (Some (sellerId l)) (Some (price l)) (Some (l_id l)) (Some (l_title l))
                      in Inr (Suc (Suc n),
                           bump (pushTx silent t
                             (st\<lparr>users := us3, listings := (listings st)[li := markSold l],
                                 rights := createdRight # rights st\<rparr>)),
                           Success))))"

definition applyCreateListing :: "(nat \<Rightarrow> string) \<Rightarrow> nat \<Rightarrow> domain_state \<Rightarrow> payload option \<Rightarrow>
    int \<Rightarrow> string \<Rightarrow> bool \<Rightarrow> handled" where
  "applyCreateListing gen n st data timestamp userId silent =
     (case data of
        None \<Rightarrow> Inl TypeError
      | Some d \<Rightarrow>
          let newListing = \<lparr>l_id = gen n, l_title = title d, price = p_price d, l_desc = desc d,
                 sellerId = userId, active = True, l_ts = timestamp, qty = orElse (p_qty d) 1,
                 sold = 0\<rparr>
          in Inr (Suc n, bump (st\<lparr>listings := newListing # listings st\<rparr>), Success))"

definition applyToggleListing :: "(nat \<Rightarrow> string) \<Rightarrow> nat \<Rightarrow> domain_state \<Rightarrow> payload option \<Rightarrow>
    int \<Rightarrow> string \<Rightarrow> bool \<Rightarrow> handled" where
  "applyToggleListing gen n st data timestamp userId silent =
     (case data of
        None \<Rightarrow> Inl TypeError
      | Some d \<Rightarrow>
          (case findIndex (\<lambda>l. l_id l = listingId d) (listings st) of
             None \<Rightarrow> Inr (n, st, Conflict ''listing_not_found'')
           | Some li \<Rightarrow>
               if sellerId (listings st ! li) \<noteq> userId
               then Inr (n, st, Conflict ''not_owner'')
               else Inr (n, bump (st\<lparr>listings := upd li (\<lambda>l. l\<lparr>active := \<not> active l\<rparr>) (listings st)\<rparr>),
                         Success)))"

definition applyDeleteListing :: "(nat \<Rightarrow> string) \<Rightarrow> nat \<Rightarrow> domain_state \<Rightarrow> payload option \<Rightarrow>
    int \<Rightarrow> string \<Rightarrow> bool \<Rightarrow> handled" where
  "applyDeleteListing gen n st data timestamp userId silent =
     (case data of
        None \<Rightarrow> Inl TypeError
      | Some d \<Rightarrow>
          (case findIndex (\<lambda>l. l_id l = listingId d) (listings st) of
             None \<Rightarrow> Inr (n, st, Conflict ''listing_not_found'')
           | Some idx \<Rightarrow>
               if sellerId (listings st ! idx) \<noteq> userId
               then Inr (n, st, Conflict ''not_owner'')
               else if orElse (sold (listings st ! idx)) 0 > 0
               then Inr (n, st, Conflict ''has_sales'')
               else Inr (n, bump (st\<lparr>listings := take idx (listings st) @ drop (Suc idx) (listings st)\<rparr>),
                         Success)))"

definition applyRegisterUser :: "(nat \<Rightarrow> string) \<Rightarrow> nat \<Rightarrow> domain_state \<Rightarrow> payload option \<Rightarrow>
    int \<Rightarrow> bool \<Rightarrow> handled" where
  "applyRegisterUser gen n st data timestamp silent =
     (case data of
        None \<Rightarrow> Inl TypeError
      | Some d \<Rightarrow>
          if list_ex (\<lambda>u. u_name u = name d) (users st)
          then Inr (n, st, Conflict ''name_taken'')
          else
            let newUser = \<lparr>u_id = gen n, u_name = name d, passHash = p_passHash d, balance = 10000,
                   streakCount = 0, lastMorningDate = None\<rparr>;
                mintTx = mkTx (gen (Suc n)) timestamp ''mint'' None (Some (gen n)) (Some 10000) None None
            in Inr (Suc (Suc n), bump (pushTx silent mintTx (st\<lparr>users := users st @ [newUser]\<rparr>)),
                    Success))"

text \<open>
  The morning claim compares calendar days: \<^verbatim>\<open>today\<close> is the UTC date of the timestamp,
  here the day number \<open>timestamp div 86400000\<close>, and \<^verbatim>\<open>diffDays\<close> is the difference of
  two day numbers. Nothing is mutated before \<^verbatim>\<open>toISOString\<close> can throw.
\<close>

definition validTime :: "int \<Rightarrow> bool" where
  \<comment> \<open>the time values a \<^verbatim>\<open>Date\<close> can hold; \<^verbatim>\<open>toISOString\<close> throws a RangeError on any other\<close>
  "validTime t = (- 8640000000000000 \<le> t \<and> t \<le> 8640000000000000)"

definition applyMorningClaim :: "(nat \<Rightarrow> string) \<Rightarrow> nat \<Rightarrow> domain_state \<Rightarrow> payload option \<Rightarrow>
    int \<Rightarrow> string \<Rightarrow> bool \<Rightarrow> handled" where
  "applyMorningClaim gen n st data timestamp userId silent =
     (case findIndex (\<lambda>u. u_id u = userId) (users st) of
        None \<Rightarrow> Inr (n, st, Conflict ''user_not_found'')
      | Some ui \<Rightarrow>
          if \<not> validTime timestamp then Inl RangeError
          else
            let today = timestamp div 86400000;
                u = users st ! ui
            in if lastMorningDate u = Some today
               then Inr (n, st, Conflict ''already_claimed'')
               else
                 let streak = (case lastMorningDate u of
                                 Some lastDay \<Rightarrow>
                                   if today - lastDay = 1
                                   then min (orElse (streakCount u) 0 + 1) 30 else 1
                               | None \<Rightarrow> 1);
                     bonus = 1000 + 100 * orElse streak 0;
                     u' = u\<lparr>streakCount := streak, lastMorningDate := Some today,
                            balance := balance u + bonus\<rparr>;
                     t = mkTx (gen n) timestamp ''mint'' None (Some userId) (Some bonus) None None
                 in Inr (Suc n, bump (pushTx silent t (st\<lparr>users := (users st)[ui := u']\<rparr>)),
                         Success))"

text \<open>
  The prize table of the roulette, with the value of \<^verbatim>\<open>acc\<close> after each addition: the
  sums 0.4, 0.65, 0.83, 0.92, 0.97, 0.99, 0.9999 as IEEE doubles, written as exact
  fractions over \<open>2^53\<close>. The jackpot threshold is the double 0.01.
\<close>

definition prizes :: "(rat \<times> int) list" where
  "prizes =
     [(3602879701896397 / 9007199254740992, 0),
      (5854679515581645 / 9007199254740992, 50),
      (7475975381435024 / 9007199254740992, 100),
      (8286623314361713 / 9007199254740992, 150),
      (8736983277098763 / 9007199254740992, 200),
      (8917127262193583 / 9007199254740992, 400),
      (9006298534815519 / 9007199254740992, 700)]"

definition jackpotThreshold :: rat where
  "jackpotThreshold = 5764607523034235 / 576460752303423488"

fun pickPrize :: "rat \<Rightarrow> (rat \<times> int) list \<Rightarrow> int option" where
  "pickPrize r [] = None"
| "pickPrize r ((acc, v) # ps) = (if r < acc then Some v else pickPrize r ps)"

definition applyRoulette :: "(nat \<Rightarrow> string) \<Rightarrow> nat \<Rightarrow> domain_state \<Rightarrow> payload option \<Rightarrow>
    int \<Rightarrow> string \<Rightarrow> bool \<Rightarrow> handled" where
  "applyRoulette gen n st data timestamp userId silent =
     (case data of
        None \<Rightarrow> Inl TypeError
      | Some d \<Rightarrow>
          (case findIndex (\<lambda>u. u_id u = userId) (users st) of
             None \<Rightarrow> Inr (n, st, Conflict ''user_not_found'')
           | Some ui \<Rightarrow>
               (case findIndex (\<lambda>u. u_name u = JACKPOT) (users st) of
                  None \<Rightarrow> Inr (n, st, Conflict ''user_not_found'')
                | Some ji \<Rightarrow>
                    if balance (users st ! ui) < 100
                    then Inr (n, st, Conflict ''insufficient_balance'')
                    else
                      let us1 = upd ui (credit (- 100)) (users st);
                          us2 = upd ji (credit 100) us1;
                          jid = u_id (users st ! ji);
                          feeTx = mkTx (gen n) timestamp ''jpot-fee'' (Some userId) (Some jid)
                                    (Some 100) None None;
                          st1 = pushTx silent feeTx (st\<lparr>users := us2\<rparr>)
                      in if roll d < jackpotThreshold
                         then
                           let payout = balance (us2 ! ji)
                           in if payout > 0
                              then
                                let us3 = upd ui (credit payout) us2;
                                    us4 = upd ji (\<lambda>u. u\<lparr>balance := 0\<rparr>) us3;
                                    jackpotTx = mkTx (gen (Suc n)) timestamp ''jackpot'' (Some jid)
                                                  (Some userId) (Some payout) None None
                                in Inr (Suc (Suc n),
                                        bump (pushTx silent jackpotTx (st1\<lparr>users := us4\<rparr>)), Success)
                              else Inr (Suc n, bump st1, Success)
                         else
                           let payout = (case pickPrize (roll d) prizes of
                                           Some v \<Rightarrow> min (balance (us2 ! ji)) v
                                         | None \<Rightarrow> 0)
                           in if payout > 0
                              then
                                let us3 = upd ui (credit payout) us2;
                                    us4 = upd ji (credit (- payout)) us3;
                                    payoutTx = mkTx (gen (Suc n)) timestamp ''roulette'' (Some jid)
                                                 (Some userId) (Some payout) None None
                                in Inr (Suc (Suc n),
                                        bump (pushTx silent payoutTx (st1\<lparr>users := us4\<rparr>)), Success)
                              else Inr (Suc n, bump st1, Success))))"

definition rightTx :: "string \<Rightarrow> int \<Rightarrow> string \<Rightarrow> string \<Rightarrow> string \<Rightarrow> right \<Rightarrow> tx" where
  \<comment> \<open>the transaction an escrow transition records: from, to, the right's listing and title\<close>
  "rightTx i ts ty fr to' r =
     mkTx i ts ty (Some fr) (Some to') None (Some (r_listingId r)) (Some (r_title r))"

definition applyBuyerRequest :: "(nat \<Rightarrow> string) \<Rightarrow> nat \<Rightarrow> domain_state \<Rightarrow> payload option \<Rightarrow>
    int \<Rightarrow> string \<Rightarrow> bool \<Rightarrow> handled" where
  "applyBuyerRequest gen n st data timestamp userId silent =
     (case data of
        None \<Rightarrow> Inl TypeError
      | Some d \<Rightarrow>
          (case findIndex (\<lambda>x. r_id x = rightId d) (rights st) of
             None \<Rightarrow> Inr (n, st, Conflict ''right_not_found'')
           | Some ri \<Rightarrow>
               let r = rights st ! ri
               in if buyerId r \<noteq> userId then Inr (n, st, Conflict ''not_buyer'')
                  else if status r \<noteq> ''owned'' then Inr (n, st, Conflict ''invalid_state'')
                  else
                    let t = rightTx (gen n) timestamp ''execute-request'' (buyerId r) (r_sellerId r) r
                    in Inr (Suc n,
                            bump (pushTx silent t
                              (st\<lparr>rights := (rights st)[ri := r\<lparr>status := ''request''\<rparr>]\<rparr>)),
                            Success)))"

definition applySellerRespond :: "(nat \<Rightarrow> string) \<Rightarrow> nat \<Rightarrow> domain_state \<Rightarrow> payload option \<Rightarrow>
    int \<Rightarrow> string \<Rightarrow> bool \<Rightarrow> handled" where
  "applySellerRespond gen n st data timestamp userId silent =
     (case data of
        None \<Rightarrow> Inl TypeError
      | Some d \<Rightarrow>
          (case findIndex (\<lambda>x. r_id x = rightId d) (rights st) of
             None \<Rightarrow> Inr (n, st, Conflict ''right_not_found'')
           | Some ri \<Rightarrow>
               let r = rights st ! ri
               in if r_sellerId r \<noteq> userId then Inr (n, st, Conflict ''not_seller'')
                  else if status r \<noteq> ''request'' then Inr (n, st, Conflict ''invalid_state'')
                  else
                    let r' = (if action d = ''exec'' then r\<lparr>status := ''seller_executed''\<rparr>
                              else r\<lparr>status := ''seller_cancel_requested''\<rparr>);
                        t = rightTx (gen n) timestamp
                              (if action d = ''exec'' then ''execute-done'' else ''execute-cancel-ask'')
                              (r_sellerId r) (buyerId r) r
                    in Inr (Suc n, bump (pushTx silent t (st\<lparr>rights := (rights st)[ri := r']\<rparr>)),
                            Success)))"

definition restock :: "listing \<Rightarrow> listing" where
  \<comment> \<open>\<^verbatim>\<open>l.sold = Math.max(0, (l.sold || 0) - 1); if (l.sold < l.qty) l.active = true\<close>\<close>
  "restock l =
     (let sold' = max 0 (orElse (sold l) 0 - 1)
      in l\<lparr>sold := sold', active := (if sold' < qty l then True else active l)\<rparr>)"

definition applyBuyerFinalize :: "(nat \<Rightarrow> string) \<Rightarrow> nat \<Rightarrow> domain_state \<Rightarrow> payload option \<Rightarrow>
    int \<Rightarrow> string \<Rightarrow> bool \<Rightarrow> handled" where
  "applyBuyerFinalize gen n st data timestamp userId silent =
     (case data of
        None \<Rightarrow> Inl TypeError
      | Some d \<Rightarrow>
          (case findIndex (\<lambda>x. r_id x = rightId d) (rights st) of
             None \<Rightarrow> Inr (n, st, Conflict ''right_not_found'')
           | Some ri \<Rightarrow>
               let r = rights st ! ri
               in if buyerId r \<noteq> userId then Inr (n, st, Conflict ''not_buyer'')
                  else if status r = ''seller_executed''
                  then
                    let t = rightTx (gen n) timestamp ''execute-finalize'' (buyerId r) (r_sellerId r) r
                    in Inr (Suc n,
                            bump (pushTx silent t
                              (st\<lparr>rights := (rights st)[ri := r\<lparr>status := ''finalized'', executed := True\<rparr>]\<rparr>)),
                            Success)
                  else if status r = ''seller_cancel_requested''
                  then
                    (case findIndex (\<lambda>x. l_id x = r_listingId r) (listings st) of
                       None \<Rightarrow> Inr (n, st, Conflict ''missing_entities'')
                     | Some li \<Rightarrow>
                     (case findIndex (\<lambda>u. u_id u = r_sellerId r) (users st) of
                       None \<Rightarrow> Inr (n, st, Conflict ''missing_entities'')
                     | Some si \<Rightarrow>
                     (case findIndex (\<lambda>u. u_id u = buyerId r) (users st) of
                       None \<Rightarrow> Inr (n, st, Conflict ''missing_entities'')
                     | Some bi \<Rightarrow>
                         let l = listings st ! li;
                             refund = (price l * 9) div 10
                         in if balance (users st ! si) < refund
                            then Inr (n, st, Conflict ''seller_insufficient'')
                            else
                              let us1 = upd si (credit (- refund)) (users st);
                                  us2 = upd bi (credit refund) us1;
                                  t = (rightTx (gen n) timestamp ''execute-cancel-ok'' (buyerId r)
                                         (r_sellerId r) r)\<lparr>t_listingId := Some (l_id l),
                                                            t_amount := Some refund\<rparr>
                              in Inr (Suc n,
                                      bump (pushTx silent t
                                        (st\<lparr>users := us2,
                                            listings := (listings st)[li := restock l],
                                            rights := filter (\<lambda>x. r_id x \<noteq> rightId d) (rights st)\<rparr>)),
                                      Success))))
                  else Inr (n, st, Conflict ''invalid_state'')))"

definition applyReportExecution :: "(nat \<Rightarrow> string) \<Rightarrow> nat \<Rightarrow> domain_state \<Rightarrow> payload option \<Rightarrow>
    int \<Rightarrow> string \<Rightarrow> bool \<Rightarrow> handled" where
  "applyReportExecution gen n st data timestamp userId silent =
     (case data of
        None \<Rightarrow> Inl TypeError
      | Some d \<Rightarrow>
          (case findIndex (\<lambda>x. r_id x = rightId d) (rights st) of
             None \<Rightarrow> Inr (n, st, Conflict ''right_not_found'')
           | Some ri \<Rightarrow>
               let r = rights st ! ri
               in if r_sellerId r \<noteq> userId then Inr (n, st, Conflict ''not_seller'')
                  else if status r \<noteq> ''request'' then Inr (n, st, Conflict ''invalid_state'')
                  else
                    let t = rightTx (gen n) timestamp ''execute-reported'' (r_sellerId r) (buyerId r) r
                    in Inr (Suc n,
                            bump (pushTx silent t
                              (st\<lparr>rights := (rights st)[ri := r\<lparr>status := ''seller_reported'',
                                                               rejectionCount := Some 0\<rparr>]\<rparr>)),
                            Success)))"

definition applyBuyerConfirm :: "(nat \<Rightarrow> string) \<Rightarrow> nat \<Rightarrow> domain_state \<Rightarrow> payload option \<Rightarrow>
    int \<Rightarrow> string \<Rightarrow> bool \<Rightarrow> handled" where
  "applyBuyerConfirm gen n st data timestamp userId silent =
     (case data of
        None \<Rightarrow> Inl TypeError
      | Some d \<Rightarrow>
          (case findIndex (\<lambda>x. r_id x = rightId d) (rights st) of
             None \<Rightarrow> Inr (n, st, Conflict ''right_not_found'')
           | Some ri \<Rightarrow>
               let r = rights st ! ri
               in if buyerId r \<noteq> userId then Inr (n, st, Conflict ''not_buyer'')
                  else if status r \<noteq> ''seller_reported'' then Inr (n, st, Conflict ''invalid_state'')
                  else
                    let t = rightTx (gen n) timestamp ''execute-confirm'' (buyerId r) (r_sellerId r) r
                    in Inr (Suc n,
                            bump (pushTx silent t
                              (st\<lparr>rights := (rights st)[ri := r\<lparr>status := ''finalized'',
                                  executed := True, rejectionCount := None\<rparr>]\<rparr>)),
                            Success)))"

definition applyBuyerReject :: "(nat \<Rightarrow> string) \<Rightarrow> nat \<Rightarrow> domain_state \<Rightarrow> payload option \<Rightarrow>
    int \<Rightarrow> string \<Rightarrow> bool \<Rightarrow> handled" where
  "applyBuyerReject gen n st data timestamp userId silent =
     (case data of
        None \<Rightarrow> Inl TypeError
      | Some d \<Rightarrow>
          (case findIndex (\<lambda>x. r_id x = rightId d) (rights st) of
             None \<Rightarrow> Inr (n, st, Conflict ''right_not_found'')
           | Some ri \<Rightarrow>
               let r = rights st ! ri
               in if buyerId r \<noteq> userId then Inr (n, st, Conflict ''not_buyer'')
                  else if status r \<noteq> ''seller_reported'' then Inr (n, st, Conflict ''invalid_state'')
                  else if (case rejectionCount r of Some c \<Rightarrow> c \<ge> 1 | None \<Rightarrow> False)
                  then Inr (n, st, Conflict ''already_rejected'')
                  else
                    let c' = (case rejectionCount r of Some c \<Rightarrow> orElse c 0 | None \<Rightarrow> 0) + 1;
                        t = rightTx (gen n) timestamp ''execute-reject'' (buyerId r) (r_sellerId r) r
                    in Inr (Suc n,
                            bump (pushTx silent t
                              (st\<lparr>rights := (rights st)[ri := r\<lparr>rejectionCount := Some c',
                                  status := ''buyer_rejected''\<rparr>]\<rparr>)),
                            Success)))"

definition applySellerRefund :: "(nat \<Rightarrow> string) \<Rightarrow> nat \<Rightarrow> domain_state \<Rightarrow> payload option \<Rightarrow>
    int \<Rightarrow> string \<Rightarrow> bool \<Rightarrow> handled" where
  "applySellerRefund gen n st data timestamp userId silent =
     (case data of
        None \<Rightarrow> Inl TypeError
      | Some d \<Rightarrow>
          (case findIndex (\<lambda>x. r_id x = rightId d) (rights st) of
             None \<Rightarrow> Inr (n, st, Conflict ''right_not_found'')
           | Some ri \<Rightarrow>
               let r = rights st ! ri
               in if r_sellerId r \<noteq> userId then Inr (n, st, Conflict ''not_seller'')
                  else if status r \<notin> {''buyer_rejected'', ''seller_cancel_requested'', ''seller_reported''}
                  then Inr (n, st, Conflict ''invalid_state'')
                  else
                    (case findIndex (\<lambda>x. l_id x = r_listingId r) (listings st) of
                       None \<Rightarrow> Inr (n, st, Conflict ''missing_entities'')
                     | Some li \<Rightarrow>
                     (case findIndex (\<lambda>u. u_id u = r_sellerId r) (users st) of
                       None \<Rightarrow> Inr (n, st, Conflict ''missing_entities'')
                     | Some si \<Rightarrow>
                     (case findIndex (\<lambda>u. u_id u = buyerId r) (users st) of
                       None \<Rightarrow> Inr (n, st, Conflict ''missing_entities'')
                     | Some bi \<Rightarrow>
                         let l = listings st ! li;
                             fullAmount = orElse (price l) 0;
                             refundAmount = (if amount d > 0 then min (amount d) fullAmount
                                             else fullAmount)
                         in if balance (users st ! si) < refundAmount
                            then Inr (n, st, Conflict ''seller_insufficient'')
                            else
                              let us1 = upd si (credit (- refundAmount)) (users st);
                                  us2 = upd bi (credit refundAmount) us1;
                                  t = (rightTx (gen n) timestamp ''seller_refund'' (r_sellerId r)
                                         (buyerId r) r)\<lparr>t_listingId := Some (l_id l),
                                                         t_amount := Some refundAmount\<rparr>
                              in Inr (Suc n,
                                      bump (pushTx silent t
                                        (st\<lparr>users := us2,
                                            listings := (listings st)[li := restock l],
                                            rights := filter (\<lambda>x. r_id x \<noteq> rightId d) (rights st)\<rparr>)),
                                      Success))))))"

section \<open>The dispatcher and the merge orchestrator\<close>

text \<open>
  In every handler the only statements that can throw come before the first mutation and
  before the first call of \<^verbatim>\<open>generateId\<close> (the destructuring of a missing \<^verbatim>\<open>data\<close>, the
  date conversion of the morning claim), so a handler that throws leaves the state and
  the id count as they were: the result \<open>Inl e\<close> carries neither. The merge pass takes
  the two readings of \<^verbatim>\<open>Date.now()\<close> of its pruning step as parameters.
\<close>

definition applyOperation :: "(nat \<Rightarrow> string) \<Rightarrow> nat \<Rightarrow> domain_state \<Rightarrow> operation \<Rightarrow> handled" where
  "applyOperation gen n st op =
     (let ty = op_type op; data = op_data op; timestamp = op_timestamp op;
          userId = op_userId op; silent = op_silent op
      in if ty = ''transfer'' then applyTransfer gen n st data timestamp userId silent
         else if ty = ''buy_listing'' then applyBuyListing gen n st data timestamp userId silent
         else if ty = ''create_listing'' then applyCreateListing gen n st data timestamp userId silent
         else if ty = ''toggle_listing'' then applyToggleListing gen n st data timestamp userId silent
         else if ty = ''delete_listing'' then applyDeleteListing gen n st data timestamp userId silent
         else if ty = ''register_user'' then applyRegisterUser gen n st data timestamp silent
         else if ty = ''morning_claim'' then applyMorningClaim gen n st data timestamp userId silent
         else if ty = ''roulette'' then applyRoulette gen n st data timestamp userId silent
         else if ty = ''buyer_request'' then applyBuyerRequest gen n st data timestamp userId silent
         else if ty = ''seller_respond'' then applySellerRespond gen n st data timestamp userId silent
         else if ty = ''report_execution'' then applyReportExecution gen n st data timestamp userId silent
         else if ty = ''buyer_confirm'' then applyBuyerConfirm gen n st data timestamp userId silent
         else if ty = ''buyer_reject'' then applyBuyerReject gen n st data timestamp userId silent
         else if ty = ''seller_refund'' then applySellerRefund gen n st data timestamp userId silent
         else if ty = ''buyer_finalize'' then applyBuyerFinalize gen n st data timestamp userId silent
         else if ty = ''send_message'' then applySendMessage gen n st data timestamp
         else Inr (n, st, Conflict ''unknown_operation''))"

definition mkConflict :: "operation \<Rightarrow> string \<Rightarrow> conflict" where
  "mkConflict op ty =
     \<lparr>operationId = op_id op, c_type = ty, c_timestamp = op_timestamp op, c_userId = op_userId op\<rparr>"

definition mkProcessed :: "operation \<Rightarrow> processedOp" where
  "mkProcessed op =
     \<lparr>p_id = op_id op, p_timestamp = op_timestamp op, p_type = op_type op, p_userId = op_userId op\<rparr>"

definition mergeStep :: "(nat \<Rightarrow> string) \<Rightarrow> nat \<times> result \<Rightarrow> operation \<Rightarrow> nat \<times> result" where
  \<comment> \<open>the body of the loop over the unprocessed operations: the \<^verbatim>\<open>try\<close> and its \<^verbatim>\<open>catch\<close>\<close>
  "mergeStep gen nr op =
     (case applyOperation gen (fst nr) (state (snd nr)) op of
        Inr (n', st', out) \<Rightarrow>
          (n', (snd nr)\<lparr>state := st',
                 newConflicts := (case out of
                                    Conflict ty \<Rightarrow> newConflicts (snd nr) @ [mkConflict op ty]
                                  | Success \<Rightarrow> newConflicts (snd nr)),
                 processedOps := processedOps (snd nr) @ [mkProcessed op]\<rparr>)
      | Inl e \<Rightarrow>
          (fst nr, (snd nr)\<lparr>newConflicts := newConflicts (snd nr) @ [mkConflict op ''error'']\<rparr>))"

fun mergeLoop :: "(nat \<Rightarrow> string) \<Rightarrow> nat \<times> result \<Rightarrow> operation list \<Rightarrow> nat \<times> result" where
  "mergeLoop gen nr [] = nr"
| "mergeLoop gen nr (op # ops) = mergeLoop gen (mergeStep gen nr op) ops"

definition unprocessedOps :: "processedOp list \<Rightarrow> operation list \<Rightarrow> operation list" where
  \<comment> \<open>the dedup filter and the sort by client timestamp (\<^verbatim>\<open>Array.prototype.sort\<close> is stable)\<close>
  "unprocessedOps plog newOperations =
     sort_key op_timestamp
       (filter (\<lambda>op. \<not> list_ex (\<lambda>processed. p_id processed = op_id op) plog) newOperations)"

definition prune :: "int \<Rightarrow> int \<Rightarrow> result \<Rightarrow> result" where
  \<comment> \<open>the retention step; \<open>now\<close> and \<open>now2\<close> are the two readings of \<^verbatim>\<open>Date.now()\<close>\<close>
  "prune now now2 r =
     (let cutoff = now - (1000 * 60 * 60);
          notifyCutoff = now2 - (1000 * 60)
      in r\<lparr>processedOps := filter (\<lambda>op. p_timestamp op > cutoff) (processedOps r),
           conflicts := filter (\<lambda>c. c_timestamp c > cutoff) (conflicts r),
           state := (state r)\<lparr>notifications :=
                       filter (\<lambda>x. n_timestamp x > notifyCutoff) (notifications (state r))\<rparr>\<rparr>)"

definition initResult :: "snapshot \<Rightarrow> result" where
  \<comment> \<open>the working copy \<^verbatim>\<open>result\<close> a merge pass starts from\<close>
  "initResult current =
     \<lparr>state = cur_state current, processedOps = cur_processedOps current,
      conflicts = cur_conflicts current, newConflicts = []\<rparr>"

definition mergeOperations :: "(nat \<Rightarrow> string) \<Rightarrow> snapshot \<Rightarrow> operation list \<Rightarrow> int \<Rightarrow> int \<Rightarrow> result" where
  "mergeOperations gen current newOperations now now2 =
     prune now now2
       (snd (mergeLoop gen (0, initResult current)
               (unprocessedOps (processedOps (initResult current)) newOperations)))"

definition toSave :: "result \<Rightarrow> snapshot" where
  \<comment> \<open>what the PUT handler persists and the next merge pass reads back as \<^verbatim>\<open>current\<close>\<close>
  "toSave r = \<lparr>cur_state = state r, cur_processedOps = processedOps r, cur_conflicts = conflicts r\<rparr>"

definition initialState :: domain_state where
  \<comment> \<open>the state of a room that has never been written\<close>
  "initialState = \<lparr>users = [], txs = [], listings = [], rights = [], notifications = [], vTick = 0\<rparr>"

definition initialSnapshot :: snapshot where
  "initialSnapshot = \<lparr>cur_state = initialState, cur_processedOps = [], cur_conflicts = []\<rparr>"

section \<open>Notions used to state the properties\<close>

text \<open>
  What a merge pass is to compute, said without the loop: the handlers are applied to the
  operations one after the other, each to the state its predecessor left; an operation
  whose handler throws changes neither the state nor the count of generated ids. These
  functions say how a pass composes the handlers, whatever the handlers compute.
\<close>

fun applyAll :: "(nat \<Rightarrow> string) \<Rightarrow> nat \<times> domain_state \<Rightarrow> operation list \<Rightarrow> nat \<times> domain_state" where
  "applyAll gen ns [] = ns"
| "applyAll gen ns (op # ops) =
     (case applyOperation gen (fst ns) (snd ns) op of
        Inl e \<Rightarrow> applyAll gen ns ops
      | Inr res \<Rightarrow> applyAll gen (fst res, fst (snd res)) ops)"

fun conflictsOf :: "(nat \<Rightarrow> string) \<Rightarrow> nat \<times> domain_state \<Rightarrow> operation list \<Rightarrow> conflict list" where
  \<comment> \<open>one conflict for every operation that is refused, one of type error for every operation
     whose handler throws, in the order of the operations\<close>
  "conflictsOf gen ns [] = []"
| "conflictsOf gen ns (op # ops) =
     (case applyOperation gen (fst ns) (snd ns) op of
        Inl e \<Rightarrow> mkConflict op ''error'' # conflictsOf gen ns ops
      | Inr res \<Rightarrow>
          (case snd (snd res) of Conflict ty \<Rightarrow> [mkConflict op ty] | Success \<Rightarrow> [])
          @ conflictsOf gen (fst res, fst (snd res)) ops)"

fun returnedOps :: "(nat \<Rightarrow> string) \<Rightarrow> nat \<times> domain_state \<Rightarrow> operation list \<Rightarrow> operation list" where
  \<comment> \<open>the operations whose handler returned, with success or with a conflict\<close>
  "returnedOps gen ns [] = []"
| "returnedOps gen ns (op # ops) =
     (case applyOperation gen (fst ns) (snd ns) op of
        Inl e \<Rightarrow> returnedOps gen ns ops
      | Inr res \<Rightarrow> op # returnedOps gen (fst res, fst (snd res)) ops)"

definition loggedOps :: "(nat \<Rightarrow> string) \<Rightarrow> nat \<times> result \<Rightarrow> operation list \<Rightarrow> operation list" where
  \<comment> \<open>the operations of a run of the loop whose handler returned instead of throwing\<close>
  "loggedOps gen nr ops = returnedOps gen (fst nr, state (snd nr)) ops"

definition pruneNotifications :: "int \<Rightarrow> domain_state \<Rightarrow> domain_state" where
  \<comment> \<open>what the retention step does to the state\<close>
  "pruneNotifications now2 st =
     st\<lparr>notifications := filter (\<lambda>x. now2 - 60000 < n_timestamp x) (notifications st)\<rparr>"

definition hasPayload :: "operation \<Rightarrow> bool" where
  \<comment> \<open>an operation no handler can throw on: its \<^verbatim>\<open>data\<close> is present and its timestamp is a
     valid date\<close>
  "hasPayload op = (op_data op \<noteq> None \<and> validTime (op_timestamp op))"


subsection \<open>Example data\<close>

definition exUser :: "string \<Rightarrow> string \<Rightarrow> int \<Rightarrow> user" where
  "exUser i nm b =
     \<lparr>u_id = i, u_name = nm, passHash = [], balance = b, streakCount = 0, lastMorningDate = None\<rparr>"

definition exData :: payload where
  "exData =
     \<lparr>toId = [], amount = 0, memo = [], listingId = [], title = [], p_price = 0, desc = [],
      p_qty = 0, name = [], p_passHash = [], roll = 1, rightId = [], action = [],
      recipientId = [], content = [], msgType = [], isHtml = False\<rparr>"

definition exOp :: "string \<Rightarrow> string \<Rightarrow> payload option \<Rightarrow> int \<Rightarrow> string \<Rightarrow> operation" where
  "exOp i ty d ts u =
     \<lparr>op_id = i, op_type = ty, op_data = d, op_timestamp = ts, op_userId = u, op_silent = False\<rparr>"

definition exGen :: "nat \<Rightarrow> string" where
  "exGen k = replicate (Suc k) CHR ''g''"

definition exState :: domain_state where
  \<comment> \<open>alice holds 100, bob and carol hold nothing\<close>
  "exState = initialState\<lparr>users := [exUser ''a'' ''alice'' 100, exUser ''b'' ''bob'' 0,
                                     exUser ''c'' ''carol'' 0]\<rparr>"

definition exSnapshot :: snapshot where
  "exSnapshot = \<lparr>cur_state = exState, cur_processedOps = [], cur_conflicts = []\<rparr>"

definition exTransfer :: "string \<Rightarrow> string \<Rightarrow> int \<Rightarrow> int \<Rightarrow> operation" where
  \<comment> \<open>alice sends \<open>amt\<close> to the user \<open>to'\<close>\<close>
  "exTransfer i to' amt ts =
     exOp i ''transfer'' (Some (exData\<lparr>toId := to', amount := amt\<rparr>)) ts ''a''"

definition exMessage :: payload where
  "exMessage = exData\<lparr>recipientId := ''b'', content := ''hello'', msgType := ''info''\<rparr>"

definition exBad :: operation where
  \<comment> \<open>a transfer that carries no \<^verbatim>\<open>data\<close>\<close>
  "exBad = exOp ''bad'' ''transfer'' None 1 ''a''"

definition exListing :: listing where
  \<comment> \<open>bob sells one pen for 30\<close>
  "exListing =
     \<lparr>l_id = ''L1'', l_title = ''pen'', price = 30, l_desc = [], sellerId = ''b'', active = True,
      l_ts = 0, qty = 1, sold = 0\<rparr>"

definition exMarket :: domain_state where
  \<comment> \<open>the example users and bob's listing; nobody bears the reserved name of the house\<close>
  "exMarket = exState\<lparr>listings := [exListing]\<rparr>"

definition exHouseMarket :: domain_state where
  \<comment> \<open>alice holds 500, bob nothing, the house account 50\<close>
  "exHouseMarket =
     exMarket\<lparr>users := [exUser ''a'' ''alice'' 500, exUser ''b'' ''bob'' 0, exUser ''h'' JACKPOT 50]\<rparr>"

definition snapshotOf :: "domain_state \<Rightarrow> snapshot" where
  "snapshotOf st = \<lparr>cur_state = st, cur_processedOps = [], cur_conflicts = []\<rparr>"

definition exBuy :: "string \<Rightarrow> int \<Rightarrow> operation" where
  \<comment> \<open>alice buys bob's listing\<close>
  "exBuy i ts = exOp i ''buy_listing'' (Some (exData\<lparr>listingId := ''L1''\<rparr>)) ts ''a''"

definition exRoulette :: "string \<Rightarrow> rat \<Rightarrow> int \<Rightarrow> operation" where
  "exRoulette i r ts = exOp i ''roulette'' (Some (exData\<lparr>roll := r\<rparr>)) ts ''a''"




definition exToggle :: "string \<Rightarrow> int \<Rightarrow> operation" where
  \<comment> \<open>bob toggles his listing\<close>
  "exToggle i ts = exOp i ''toggle_listing'' (Some (exData\<lparr>listingId := ''L1''\<rparr>)) ts ''b''"




lemmas ex_defs = exUser_def exData_def exOp_def exGen_def exState_def exSnapshot_def
  exTransfer_def exMessage_def initialState_def exBad_def exListing_def exMarket_def
  exHouseMarket_def snapshotOf_def exBuy_def exRoulette_def exToggle_def

lemmas merge_defs = mergeOperations_def initResult_def unprocessedOps_def prune_def mergeStep_def
  mkConflict_def mkProcessed_def toSave_def

lemmas handler_defs = applyTransfer_def applyBuyListing_def applyCreateListing_def
  applyToggleListing_def applyDeleteListing_def applyRegisterUser_def applyMorningClaim_def
  applyRoulette_def applyBuyerRequest_def applySellerRespond_def applyReportExecution_def
  applyBuyerConfirm_def applyBuyerReject_def applySellerRefund_def applyBuyerFinalize_def
  applySendMessage_def

lemmas aux_defs = upd_def credit_def orElse_def pushTx_def bump_def mkTx_def rightTx_def
  restock_def markSold_def

section \<open>Basic facts\<close>


lemma length_upd [simp]: "length (upd i f xs) = length xs"
  by (simp add: upd_def)

lemma mergeLoop_append:
  "mergeLoop gen nr (xs @ ys) = mergeLoop gen (mergeLoop gen nr xs) ys"
  by (induction xs arbitrary: nr) simp_all

lemma mergeStep_throw:
  "applyOperation gen (fst nr) (state (snd nr)) op = Inl e \<Longrightarrow>
   mergeStep gen nr op =
     (fst nr, (snd nr)\<lparr>newConflicts := newConflicts (snd nr) @ [mkConflict op ''error'']\<rparr>)"
  by (simp add: mergeStep_def)

lemma mergeStep_processedOps:
  "processedOps (snd (mergeStep gen nr op)) =
     processedOps (snd nr) @
       (case applyOperation gen (fst nr) (state (snd nr)) op of Inl e \<Rightarrow> [] | Inr res \<Rightarrow> [mkProcessed op])"
  by (simp add: mergeStep_def split: sum.splits prod.splits)

lemma mergeStep_conflicts [simp]: "conflicts (snd (mergeStep gen nr op)) = conflicts (snd nr)"
  by (simp add: mergeStep_def split: sum.splits prod.splits)

lemma mergeLoop_conflicts [simp]: "conflicts (snd (mergeLoop gen nr xs)) = conflicts (snd nr)"
  by (induction xs arbitrary: nr) simp_all



lemma returnedOps_append:
  "returnedOps gen ns (xs @ ys) = returnedOps gen ns xs @ returnedOps gen (applyAll gen ns xs) ys"
  by (induction xs arbitrary: ns) (simp_all split: sum.splits)

lemma mergeLoop_spec:
  "mergeLoop gen (n, r) xs =
     (fst (applyAll gen (n, state r) xs),
      r\<lparr>state := snd (applyAll gen (n, state r) xs),
        newConflicts := newConflicts r @ conflictsOf gen (n, state r) xs,
        processedOps := processedOps r @ map mkProcessed (returnedOps gen (n, state r) xs)\<rparr>)"
proof (induction xs arbitrary: n r)
  case Nil
  then show ?case by simp
next
  case (Cons op ops)
  show ?case
  proof (cases "applyOperation gen n (state r) op")
    case (Inl e)
    then have "mergeStep gen (n, r) op =
        (n, r\<lparr>newConflicts := newConflicts r @ [mkConflict op ''error'']\<rparr>)"
      by (simp add: mergeStep_def)
    with Inl show ?thesis by (simp add: Cons.IH)
  next
    case (Inr res)
    obtain n' st' out where res: "res = (n', st', out)" by (cases res)
    show ?thesis
    proof (cases out)
      case Success
      with Inr res have "mergeStep gen (n, r) op =
          (n', r\<lparr>state := st', newConflicts := newConflicts r,
                 processedOps := processedOps r @ [mkProcessed op]\<rparr>)"
        by (simp add: mergeStep_def)
      with Inr res Success show ?thesis by (simp add: Cons.IH)
    next
      case (Conflict ty)
      with Inr res have "mergeStep gen (n, r) op =
          (n', r\<lparr>state := st', newConflicts := newConflicts r @ [mkConflict op ty],
                 processedOps := processedOps r @ [mkProcessed op]\<rparr>)"
        by (simp add: mergeStep_def)
      with Inr res Conflict show ?thesis by (simp add: Cons.IH)
    qed
  qed
qed

lemma merge_spec:
  "mergeOperations gen current newOperations now now2 =
     prune now now2
       ((initResult current)
          \<lparr>state := snd (applyAll gen (0, cur_state current)
                      (unprocessedOps (cur_processedOps current) newOperations)),
           newConflicts := conflictsOf gen (0, cur_state current)
                      (unprocessedOps (cur_processedOps current) newOperations),
           processedOps := cur_processedOps current @
              map mkProcessed (returnedOps gen (0, cur_state current)
                      (unprocessedOps (cur_processedOps current) newOperations))\<rparr>)"
  by (simp add: mergeOperations_def mergeLoop_spec initResult_def)

lemma mergeLoop_processedOps:
  "processedOps (snd (mergeLoop gen nr xs)) =
     processedOps (snd nr) @ map mkProcessed (loggedOps gen nr xs)"
  using mergeLoop_spec [of gen "fst nr" "snd nr" xs] by (simp add: loggedOps_def)

lemma set_unprocessedOps:
  "set (unprocessedOps plog ops) = {op \<in> set ops. op_id op \<notin> p_id ` set plog}"
  by (force simp: unprocessedOps_def list_ex_iff)

lemma state_prune: "state (prune now now2 r) = pruneNotifications now2 (state r)"
  by (simp add: prune_def pruneNotifications_def Let_def)

lemma newConflicts_mergeStep_mono:
  "set (newConflicts (snd nr)) \<subseteq> set (newConflicts (snd (mergeStep gen nr op)))"
  by (auto simp: mergeStep_def split: sum.splits prod.splits outcome.splits)

lemma newConflicts_mergeLoop_mono:
  "set (newConflicts (snd nr)) \<subseteq> set (newConflicts (snd (mergeLoop gen nr xs)))"
proof (induction xs arbitrary: nr)
  case Nil
  then show ?case by simp
next
  case (Cons op ops)
  from newConflicts_mergeStep_mono [of nr gen op] Cons.IH [of "mergeStep gen nr op"]
  show ?case by auto
qed

lemma newConflicts_prune [simp]: "newConflicts (prune now now2 r) = newConflicts r"
  by (simp add: prune_def Let_def)

section \<open>Errors thrown by a handler\<close>



subsection \<open>When a handler throws\<close>

lemma throw_sendMessage:
  "applySendMessage gen n st data ts = Inl e \<longleftrightarrow> data = None \<and> e = TypeError"
  by (auto simp: applySendMessage_def split: option.splits)

lemma throw_transfer:
  "applyTransfer gen n st data ts uid sl = Inl e \<longleftrightarrow> data = None \<and> e = TypeError"
  by (auto simp: applyTransfer_def Let_def split: option.splits)

lemma throw_buy:
  "applyBuyListing gen n st data ts uid sl = Inl e \<longleftrightarrow> data = None \<and> e = TypeError"
  by (auto simp: applyBuyListing_def Let_def split: option.splits)

lemma throw_create:
  "applyCreateListing gen n st data ts uid sl = Inl e \<longleftrightarrow> data = None \<and> e = TypeError"
  by (auto simp: applyCreateListing_def Let_def split: option.splits)

lemma throw_toggle:
  "applyToggleListing gen n st data ts uid sl = Inl e \<longleftrightarrow> data = None \<and> e = TypeError"
  by (auto simp: applyToggleListing_def Let_def split: option.splits)

lemma throw_delete:
  "applyDeleteListing gen n st data ts uid sl = Inl e \<longleftrightarrow> data = None \<and> e = TypeError"
  by (auto simp: applyDeleteListing_def Let_def split: option.splits)

lemma throw_register:
  "applyRegisterUser gen n st data ts sl = Inl e \<longleftrightarrow> data = None \<and> e = TypeError"
  by (auto simp: applyRegisterUser_def Let_def split: option.splits)

lemma throw_roulette:
  "applyRoulette gen n st data ts uid sl = Inl e \<longleftrightarrow> data = None \<and> e = TypeError"
  by (auto simp: applyRoulette_def Let_def split: option.splits)

lemma throw_request:
  "applyBuyerRequest gen n st data ts uid sl = Inl e \<longleftrightarrow> data = None \<and> e = TypeError"
  by (auto simp: applyBuyerRequest_def Let_def split: option.splits)

lemma throw_respond:
  "applySellerRespond gen n st data ts uid sl = Inl e \<longleftrightarrow> data = None \<and> e = TypeError"
  by (auto simp: applySellerRespond_def Let_def split: option.splits)

lemma throw_report:
  "applyReportExecution gen n st data ts uid sl = Inl e \<longleftrightarrow> data = None \<and> e = TypeError"
  by (auto simp: applyReportExecution_def Let_def split: option.splits)

lemma throw_confirm:
  "applyBuyerConfirm gen n st data ts uid sl = Inl e \<longleftrightarrow> data = None \<and> e = TypeError"
  by (auto simp: applyBuyerConfirm_def Let_def split: option.splits)

lemma throw_reject:
  "applyBuyerReject gen n st data ts uid sl = Inl e \<longleftrightarrow> data = None \<and> e = TypeError"
  by (auto simp: applyBuyerReject_def Let_def split: option.splits)

lemma throw_refund:
  "applySellerRefund gen n st data ts uid sl = Inl e \<longleftrightarrow> data = None \<and> e = TypeError"
  by (auto simp: applySellerRefund_def Let_def split: option.splits)

lemma throw_finalize:
  "applyBuyerFinalize gen n st data ts uid sl = Inl e \<longleftrightarrow> data = None \<and> e = TypeError"
  by (auto simp: applyBuyerFinalize_def Let_def split: option.splits)

lemma throw_morning:
  "applyMorningClaim gen n st data ts uid sl = Inl e \<longleftrightarrow>
     (\<exists>ui. findIndex (\<lambda>u. u_id u = uid) (users st) = Some ui) \<and> \<not> validTime ts \<and> e = RangeError"
  by (auto simp: applyMorningClaim_def Let_def split: option.splits)

lemmas throw_simps = throw_sendMessage throw_transfer throw_buy throw_create throw_toggle
  throw_delete throw_register throw_roulette throw_request throw_respond throw_report
  throw_confirm throw_reject throw_refund throw_finalize throw_morning

lemma throw_depends_on_users:
  assumes "applyOperation gen n st op = Inl e" and "users st' = users st"
  shows "applyOperation gen' n' st' op = Inl e"
  using assms by (simp add: applyOperation_def Let_def throw_simps split: if_splits)

lemma hasPayload_no_throw: "hasPayload op \<Longrightarrow> applyOperation gen n st op \<noteq> Inl e"
  by (simp add: applyOperation_def Let_def throw_simps hasPayload_def)

lemma unprocessedOps_single:
  "op_id op \<notin> p_id ` set plog \<Longrightarrow> unprocessedOps plog [op] = [op]"
  by (force simp: unprocessedOps_def list_ex_iff)

lemma users_prune [simp]: "users (state (prune now now2 r)) = users (state r)"
  by (simp add: prune_def Let_def)

lemma processedOps_prune:
  "processedOps (prune now now2 r) = filter (\<lambda>p. now - 3600000 < p_timestamp p) (processedOps r)"
  by (simp add: prune_def Let_def)

lemma conflicts_prune:
  "conflicts (prune now now2 r) = filter (\<lambda>c. now - 3600000 < c_timestamp c) (conflicts r)"
  by (simp add: prune_def Let_def)

lemma p_id_mkProcessed [simp]: "p_id (mkProcessed op) = op_id op"
  by (simp add: mkProcessed_def)

text \<open>
  C10, as the code has it. When the handler of an operation throws, nothing is appended to
  the processed log for it. Let the sorted batch of a pass be \<open>xs @ op # ys\<close> and let the handler of \<open>op\<close>
  throw when its turn comes. The log the pass returns is the old log followed by one
  entry for each operation of \<open>xs\<close> and \<open>ys\<close> whose handler returned, pruned; so, unless
  another operation of the batch with the same id was handled without throwing, the id of
  \<open>op\<close> is not in that log. In the next pass the operation, resubmitted in any batch,
  passes the dedup filter, and that pass applies the handlers to its filtered batch, the
  resubmitted operation included: its state and its conflicts are those the handlers
  produce.
\<close>

theorem thrown_operation_not_logged:
  assumes sorted: "unprocessedOps (cur_processedOps current) ops1 = xs @ op # ys"
    and before: "applyAll gen (0, cur_state current) xs = (n1, st1)"
    and throws: "applyOperation gen n1 st1 op = Inl e"
    and others: "op_id op \<notin> op_id ` set (returnedOps gen (0, cur_state current) xs)"
      "op_id op \<notin> op_id ` set (returnedOps gen (n1, st1) ys)"
    and again: "op \<in> set ops2"
  shows "processedOps (mergeOperations gen current ops1 now now2) =
           filter (\<lambda>p. now - 3600000 < p_timestamp p)
             (cur_processedOps current @
              map mkProcessed (returnedOps gen (0, cur_state current) xs @
                               returnedOps gen (n1, st1) ys))
       \<and> op_id op \<notin> p_id ` set (processedOps (mergeOperations gen current ops1 now now2))
       \<and> op \<in> set (unprocessedOps
                     (cur_processedOps (toSave (mergeOperations gen current ops1 now now2))) ops2)
       \<and> state (mergeOperations gen2 (toSave (mergeOperations gen current ops1 now now2))
                  ops2 now' now2') =
           pruneNotifications now2'
             (snd (applyAll gen2 (0, state (mergeOperations gen current ops1 now now2))
                (unprocessedOps
                   (cur_processedOps (toSave (mergeOperations gen current ops1 now now2))) ops2)))
       \<and> newConflicts (mergeOperations gen2 (toSave (mergeOperations gen current ops1 now now2))
                  ops2 now' now2') =
           conflictsOf gen2 (0, state (mergeOperations gen current ops1 now now2))
             (unprocessedOps
                (cur_processedOps (toSave (mergeOperations gen current ops1 now now2))) ops2)"
proof -
  let ?r1 = "mergeOperations gen current ops1 now now2"
  have ret: "returnedOps gen (0, cur_state current) (xs @ op # ys) =
      returnedOps gen (0, cur_state current) xs @ returnedOps gen (n1, st1) ys"
    using before throws by (simp add: returnedOps_append)
  have log: "processedOps ?r1 =
      filter (\<lambda>p. now - 3600000 < p_timestamp p)
        (cur_processedOps current @
         map mkProcessed (returnedOps gen (0, cur_state current) xs @
                          returnedOps gen (n1, st1) ys))"
    by (simp add: merge_spec sorted ret processedOps_prune initResult_def)
  have "op \<in> set (unprocessedOps (cur_processedOps current) ops1)"
    by (simp add: sorted)
  then have fresh: "op_id op \<notin> p_id ` set (cur_processedOps current)"
    by (simp add: set_unprocessedOps)
  have notin: "op_id op \<notin> p_id ` set (processedOps ?r1)"
    using fresh others by (auto simp: log)
  then have again': "op \<in> set (unprocessedOps (cur_processedOps (toSave ?r1)) ops2)"
    using again by (simp add: set_unprocessedOps toSave_def)
  have st2: "state (mergeOperations gen2 (toSave ?r1) ops2 now' now2') =
      pruneNotifications now2'
        (snd (applyAll gen2 (0, state ?r1) (unprocessedOps (cur_processedOps (toSave ?r1)) ops2)))"
    by (simp add: merge_spec [of gen2 "toSave ?r1"] state_prune) (simp add: toSave_def)
  have cs2: "newConflicts (mergeOperations gen2 (toSave ?r1) ops2 now' now2') =
      conflictsOf gen2 (0, state ?r1) (unprocessedOps (cur_processedOps (toSave ?r1)) ops2)"
    by (simp add: merge_spec [of gen2 "toSave ?r1"]) (simp add: toSave_def)
  from log notin again' st2 cs2 show ?thesis by blast
qed

theorem thrown_operation_not_logged_witness:
  "op_id exBad \<notin> p_id ` set (processedOps
      (mergeOperations exGen exSnapshot [exBad, exTransfer ''t1'' ''b'' 10 2] 10 10))
   \<and> exBad \<in> set (unprocessedOps (cur_processedOps (toSave
      (mergeOperations exGen exSnapshot [exBad, exTransfer ''t1'' ''b'' 10 2] 10 10))) [exBad])
   \<and> newConflicts (mergeOperations exGen (toSave
      (mergeOperations exGen exSnapshot [exBad, exTransfer ''t1'' ''b'' 10 2] 10 10))
        [exBad] 20 20) = [mkConflict exBad ''error'']"
proof -
  let ?r1 = "mergeOperations exGen exSnapshot [exBad, exTransfer ''t1'' ''b'' 10 2] 10 10"
  have sorted: "unprocessedOps (cur_processedOps exSnapshot) [exBad, exTransfer ''t1'' ''b'' 10 2]
      = [] @ exBad # [exTransfer ''t1'' ''b'' 10 2]"
    by (simp add: unprocessedOps_def ex_defs)
  have before: "applyAll exGen (0, cur_state exSnapshot) [] = (0, cur_state exSnapshot)"
    by simp
  have throws: "applyOperation exGen 0 (cur_state exSnapshot) exBad = Inl TypeError"
    by (simp add: applyOperation_def applyTransfer_def ex_defs)
  have others: "op_id exBad \<notin> op_id ` set (returnedOps exGen (0, cur_state exSnapshot) [])"
    "op_id exBad \<notin> op_id ` set (returnedOps exGen (0, cur_state exSnapshot)
        [exTransfer ''t1'' ''b'' 10 2])"
    by (simp_all add: applyOperation_def applyTransfer_def aux_defs ex_defs Let_def)
  have again: "exBad \<in> set [exBad]" by simp
  have throws2: "applyOperation exGen 0 (state ?r1) exBad = Inl TypeError"
    by (simp add: applyOperation_def applyTransfer_def ex_defs)
  from thrown_operation_not_logged [OF sorted before throws others again, of 10 10 exGen 20 20]
  have notin: "op_id exBad \<notin> p_id ` set (processedOps ?r1)"
    and mem: "exBad \<in> set (unprocessedOps (cur_processedOps (toSave ?r1)) [exBad])"
    and cs: "newConflicts (mergeOperations exGen (toSave ?r1) [exBad] 20 20) =
        conflictsOf exGen (0, state ?r1) (unprocessedOps (cur_processedOps (toSave ?r1)) [exBad])"
    by blast+
  from notin have "unprocessedOps (cur_processedOps (toSave ?r1)) [exBad] = [exBad]"
    by (simp add: unprocessedOps_single toSave_def)
  with cs throws2 have "newConflicts (mergeOperations exGen (toSave ?r1) [exBad] 20 20) =
      [mkConflict exBad ''error'']"
    by simp
  with notin mem show ?thesis by blast
qed

text \<open>
  The log is searched by id alone. In the batch of the operation \<open>bad\<close>, whose handler
  throws, and a transfer that carries the same id, the transfer is logged under that id:
  the id is in the log after the pass, and the resubmitted \<open>bad\<close> is filtered out of the
  next pass, which records no conflict for it.
\<close>

theorem thrown_operation_counterexample:
  "applyOperation exGen 0 exState exBad = Inl TypeError
   \<and> op_id exBad \<in> p_id ` set (processedOps
        (mergeOperations exGen exSnapshot [exBad, exTransfer ''bad'' ''b'' 10 2] 10 10))
   \<and> unprocessedOps (cur_processedOps (toSave
        (mergeOperations exGen exSnapshot [exBad, exTransfer ''bad'' ''b'' 10 2] 10 10))) [exBad] = []
   \<and> newConflicts (mergeOperations exGen (toSave
        (mergeOperations exGen exSnapshot [exBad, exTransfer ''bad'' ''b'' 10 2] 10 10))
          [exBad] 20 20) = []"
  by (simp add: merge_defs toSave_def mkProcessed_def applyOperation_def applyTransfer_def
      aux_defs ex_defs Let_def)

section \<open>Retention\<close>

text \<open>
  C5, as the code has it. The pruner keeps exactly the entries whose recorded timestamp is
  later than the time of the merge pass minus one hour. The window ends at the time the
  pass executes; the age of a processed-log entry is read from its timestamp field, which
  is the client-supplied timestamp of the operation it was logged for. The conflict log of
  the snapshot is pruned the same way.
\<close>

theorem retention_by_recorded_timestamp:
  "processedOps (mergeOperations gen current newOperations now now2) =
     filter (\<lambda>p. now - 3600000 < p_timestamp p)
       (cur_processedOps current @
        map mkProcessed (loggedOps gen (0, initResult current)
          (unprocessedOps (cur_processedOps current) newOperations)))
   \<and> conflicts (mergeOperations gen current newOperations now now2) =
       filter (\<lambda>c. now - 3600000 < c_timestamp c) (cur_conflicts current)
   \<and> p_timestamp (mkProcessed op) = op_timestamp op"
  by (simp add: mergeOperations_def processedOps_prune conflicts_prune mergeLoop_processedOps
      initResult_def mkProcessed_def)

text \<open>
  An operation with client timestamp 5 is applied by a pass that executes at time
  10000000: the transfer takes effect, and its log entry is dropped by the same pass.
\<close>

theorem retention_counterexample:
  "map balance (users (state
      (mergeOperations exGen exSnapshot [exTransfer ''t1'' ''b'' 10 5] 10000000 10000000)))
     = [90, 10, 0]
   \<and> processedOps (mergeOperations exGen exSnapshot [exTransfer ''t1'' ''b'' 10 5] 10000000 10000000)
     = []"
  by (simp add: merge_defs applyOperation_def applyTransfer_def aux_defs ex_defs Let_def)

section \<open>The version counter\<close>

text \<open>
  C9, at a well-formed message. The handler of \<^verbatim>\<open>send_message\<close> returns success and
  appends a notification, and the version counter of the state is what it was.
\<close>

theorem send_message_keeps_vTick:
  "applyOperation gen n st (exOp ''m1'' ''send_message'' (Some exMessage) ts ''a'') =
     Inr (Suc n,
          st\<lparr>notifications := notifications st @
               [\<lparr>n_id = gen n, n_timestamp = ts, n_recipientId = ''b'', n_content = ''hello'',
                 n_type = ''info'', n_isHtml = False\<rparr>]\<rparr>,
          Success)
   \<and> vTick (st\<lparr>notifications := notifications st @
               [\<lparr>n_id = gen n, n_timestamp = ts, n_recipientId = ''b'', n_content = ''hello'',
                 n_type = ''info'', n_isHtml = False\<rparr>]\<rparr>) = vTick st"
  by (simp add: applyOperation_def applySendMessage_def ex_defs)

section \<open>Ordering\<close>

lemma filter_same_key_distinct:
  "distinct (map f xs) \<Longrightarrow> k \<in> set xs \<Longrightarrow> filter (\<lambda>x. f k = f x) xs = [k]"
proof (induction xs)
  case Nil
  then show ?case by simp
next
  case (Cons x xs)
  show ?case
  proof (cases "k = x")
    case True
    have "filter (\<lambda>y. f x = f y) xs = []"
      using Cons.prems(1) by (auto simp: filter_empty_conv)
    with True show ?thesis by simp
  next
    case False
    with Cons.prems have k: "k \<in> set xs" by simp
    from Cons.prems(1) have "f x \<notin> f ` set xs" by simp
    with k have "f k \<noteq> f x" by (metis imageI)
    with k Cons.IH Cons.prems(1) show ?thesis by simp
  qed
qed

lemma sort_key_perm_distinct:
  assumes perm: "mset xs = mset ys" and dist: "distinct (map f xs)"
  shows "sort_key f xs = sort_key f ys"
proof (rule properties_for_sort_key)
  show "mset (sort_key f ys) = mset xs" using perm by simp
  show "sorted (map f (sort_key f ys))" by simp
  fix k assume "k \<in> set (sort_key f ys)"
  then have kys: "k \<in> set ys" by simp
  then have kxs: "k \<in> set xs" using perm by (metis mset_eq_setD)
  have "mset (map f xs) = mset (map f ys)" using perm by (metis mset_map)
  then have dist': "distinct (map f ys)" using dist by (metis mset_eq_imp_distinct_iff)
  have "filter (\<lambda>x. f k = f x) (sort_key f ys) = sort_key f (filter (\<lambda>x. f k = f x) ys)"
    by (rule filter_sort)
  also have "\<dots> = [k]" by (simp add: filter_same_key_distinct [OF dist' kys])
  also have "\<dots> = filter (\<lambda>x. f k = f x) xs" by (simp add: filter_same_key_distinct [OF dist kxs])
  finally show "filter (\<lambda>x. f k = f x) (sort_key f ys) = filter (\<lambda>x. f k = f x) xs" .
qed

text \<open>
  C6, as the code has it. Two batches that hold the same operations in different orders
  give the same merge result when the client timestamps of the batch are pairwise
  different. Operations with equal timestamps keep the order in which they arrived.
\<close>

theorem merge_order_independent:
  assumes perm: "mset newOperations = mset newOperations'"
    and dist: "distinct (map op_timestamp newOperations)"
  shows "mergeOperations gen current newOperations now now2 =
         mergeOperations gen current newOperations' now now2"
proof -
  let ?P = "\<lambda>op. \<not> list_ex (\<lambda>processed. p_id processed = op_id op) (cur_processedOps current)"
  have "mset (filter ?P newOperations) = mset (filter ?P newOperations')"
    using perm by (metis mset_filter)
  moreover have "distinct (map op_timestamp (filter ?P newOperations))"
    using dist by (simp add: distinct_map_filter)
  ultimately have "sort_key op_timestamp (filter ?P newOperations) =
      sort_key op_timestamp (filter ?P newOperations')"
    by (rule sort_key_perm_distinct)
  then show ?thesis
    by (simp add: mergeOperations_def unprocessedOps_def initResult_def)
qed

theorem merge_order_independent_witness:
  "mergeOperations exGen exSnapshot [exTransfer ''t1'' ''b'' 100 5, exTransfer ''t2'' ''c'' 100 6] 10 10
   = mergeOperations exGen exSnapshot [exTransfer ''t2'' ''c'' 100 6, exTransfer ''t1'' ''b'' 100 5] 10 10
   \<and> map balance (users (state (mergeOperations exGen exSnapshot
        [exTransfer ''t2'' ''c'' 100 6, exTransfer ''t1'' ''b'' 100 5] 10 10))) = [0, 100, 0]"
proof -
  have perm: "mset [exTransfer ''t1'' ''b'' 100 5, exTransfer ''t2'' ''c'' 100 6] =
      mset [exTransfer ''t2'' ''c'' 100 6, exTransfer ''t1'' ''b'' 100 5]"
    by simp
  have dist: "distinct (map op_timestamp [exTransfer ''t1'' ''b'' 100 5, exTransfer ''t2'' ''c'' 100 6])"
    by (simp add: ex_defs)
  have "map balance (users (state (mergeOperations exGen exSnapshot
        [exTransfer ''t1'' ''b'' 100 5, exTransfer ''t2'' ''c'' 100 6] 10 10))) = [0, 100, 0]"
    by (simp add: merge_defs applyOperation_def applyTransfer_def aux_defs ex_defs Let_def)
  with merge_order_independent [OF perm dist, of exGen exSnapshot 10 10]
  show ?thesis by simp
qed

text \<open>
  Two transfers of alice's whole balance with the same timestamp: the one that arrives
  first wins.
\<close>

theorem merge_order_counterexample:
  "map balance (users (state (mergeOperations exGen exSnapshot
      [exTransfer ''t1'' ''b'' 100 5, exTransfer ''t2'' ''c'' 100 5] 10 10))) = [0, 100, 0]
   \<and> map balance (users (state (mergeOperations exGen exSnapshot
      [exTransfer ''t2'' ''c'' 100 5, exTransfer ''t1'' ''b'' 100 5] 10 10))) = [0, 0, 100]"
  by (simp add: merge_defs applyOperation_def applyTransfer_def aux_defs ex_defs Let_def)

section \<open>Idempotency\<close>

lemma returnedOps_member:
  "op \<in> set xs \<Longrightarrow> hasPayload op \<Longrightarrow> op \<in> set (returnedOps gen ns xs)"
proof (induction xs arbitrary: ns)
  case Nil
  then show ?case by simp
next
  case (Cons x xs)
  show ?case
  proof (cases "op = x")
    case True
    with Cons.prems(2) hasPayload_no_throw [of x gen "fst ns" "snd ns"]
    show ?thesis by (cases "applyOperation gen (fst ns) (snd ns) x") auto
  next
    case False
    with Cons.prems have "op \<in> set xs" by simp
    from Cons.IH [OF this Cons.prems(2)]
    show ?thesis by (simp split: sum.splits)
  qed
qed

lemma loggedOps_member:
  "op \<in> set xs \<Longrightarrow> hasPayload op \<Longrightarrow> op \<in> set (loggedOps gen nr xs)"
  by (simp add: loggedOps_def returnedOps_member)

lemma unprocessedOps_drop:
  "op_id op \<in> p_id ` set plog \<Longrightarrow>
   unprocessedOps plog (xs @ op # ys) = unprocessedOps plog (xs @ ys)"
  by (force simp: unprocessedOps_def list_ex_iff)

lemma merge_drop:
  "op_id op \<in> p_id ` set (cur_processedOps c) \<Longrightarrow>
   mergeOperations g c (us @ op # vs) now now2 = mergeOperations g c (us @ vs) now now2"
  by (simp add: mergeOperations_def initResult_def unprocessedOps_drop)

lemma merge_empty_batch:
  "mergeOperations gen current [] now now2 = prune now now2 (initResult current)"
  by (simp add: mergeOperations_def unprocessedOps_def)

text \<open>
  C1, as the code has it, for two successive passes. Take an operation whose payload is
  present and whose timestamp is a valid date (so that its handler does not throw), whose
  id is not yet in the processed log, and whose client timestamp is later than the time
  of the first pass minus one hour (so that its log entry survives the pruning of that
  pass). Once a pass has handled it, submitting it again in the next pass, alone or inside
  any batch, has no effect: the pass gives the result it gives without that operation, and
  a pass over the operation alone records no conflict and only prunes.
\<close>

theorem resubmission_dropped:
  assumes mem: "op \<in> set ops1"
    and fresh: "op_id op \<notin> p_id ` set (cur_processedOps current)"
    and payload: "hasPayload op"
    and recent: "now1 - 3600000 < op_timestamp op"
  shows "mergeOperations gen2 (toSave (mergeOperations gen1 current ops1 now1 now1'))
            (xs @ op # ys) now2 now2'
         = mergeOperations gen2 (toSave (mergeOperations gen1 current ops1 now1 now1'))
            (xs @ ys) now2 now2'
       \<and> mergeOperations gen2 (toSave (mergeOperations gen1 current ops1 now1 now1')) [op] now2 now2'
         = prune now2 now2' (initResult (toSave (mergeOperations gen1 current ops1 now1 now1')))"
proof -
  let ?r1 = "mergeOperations gen1 current ops1 now1 now1'"
  let ?sorted = "unprocessedOps (cur_processedOps current) ops1"
  have "op \<in> set ?sorted" using mem fresh by (simp add: set_unprocessedOps)
  then have "op \<in> set (loggedOps gen1 (0, initResult current) ?sorted)"
    using payload by (rule loggedOps_member)
  then have "mkProcessed op \<in> set (processedOps ?r1)"
    using recent
    by (simp add: mergeOperations_def processedOps_prune mergeLoop_processedOps initResult_def
        mkProcessed_def)
  then have "p_id (mkProcessed op) \<in> p_id ` set (processedOps ?r1)"
    by (rule imageI)
  then have logged: "op_id op \<in> p_id ` set (cur_processedOps (toSave ?r1))"
    by (simp add: toSave_def)
  have first: "mergeOperations gen2 (toSave ?r1) (xs @ op # ys) now2 now2' =
      mergeOperations gen2 (toSave ?r1) (xs @ ys) now2 now2'"
    using logged by (rule merge_drop)
  have "mergeOperations gen2 (toSave ?r1) ([] @ op # []) now2 now2' =
      mergeOperations gen2 (toSave ?r1) ([] @ []) now2 now2'"
    using logged by (rule merge_drop)
  then have second: "mergeOperations gen2 (toSave ?r1) [op] now2 now2' =
      prune now2 now2' (initResult (toSave ?r1))"
    by (simp add: merge_empty_batch)
  from first second show ?thesis by blast
qed

theorem resubmission_dropped_witness:
  "map balance (users (state (mergeOperations exGen
      (toSave (mergeOperations exGen exSnapshot [exTransfer ''t1'' ''b'' 10 5] 10 10))
      [exTransfer ''t1'' ''b'' 10 5] 20 20))) = [90, 10, 0]
   \<and> newConflicts (mergeOperations exGen
      (toSave (mergeOperations exGen exSnapshot [exTransfer ''t1'' ''b'' 10 5] 10 10))
      [exTransfer ''t1'' ''b'' 10 5] 20 20) = []"
proof -
  have mem: "exTransfer ''t1'' ''b'' 10 5 \<in> set [exTransfer ''t1'' ''b'' 10 5]" by simp
  have fresh: "op_id (exTransfer ''t1'' ''b'' 10 5) \<notin> p_id ` set (cur_processedOps exSnapshot)"
    by (simp add: ex_defs)
  have payload: "hasPayload (exTransfer ''t1'' ''b'' 10 5)"
    by (simp add: hasPayload_def validTime_def ex_defs)
  have recent: "10 - 3600000 < op_timestamp (exTransfer ''t1'' ''b'' 10 5)"
    by (simp add: ex_defs)
  have first: "map balance (users (state
      (mergeOperations exGen exSnapshot [exTransfer ''t1'' ''b'' 10 5] 10 10))) = [90, 10, 0]"
    by (simp add: merge_defs applyOperation_def applyTransfer_def aux_defs ex_defs Let_def)
  from resubmission_dropped [OF mem fresh payload recent, of exGen exGen 10 "[]" "[]" 20 20]
  have "mergeOperations exGen
      (toSave (mergeOperations exGen exSnapshot [exTransfer ''t1'' ''b'' 10 5] 10 10))
      [exTransfer ''t1'' ''b'' 10 5] 20 20
    = prune 20 20 (initResult
        (toSave (mergeOperations exGen exSnapshot [exTransfer ''t1'' ''b'' 10 5] 10 10)))"
    by blast
  with first show ?thesis by (simp add: initResult_def toSave_def)
qed

text \<open>
  Two copies of one transfer in the same batch are both applied; and a transfer whose
  client timestamp is more than an hour behind the time of the pass is applied again when
  it is resubmitted in the next pass.
\<close>

theorem resubmission_counterexample:
  "map balance (users (state (mergeOperations exGen exSnapshot
      [exTransfer ''t1'' ''b'' 10 5, exTransfer ''t1'' ''b'' 10 5] 10 10))) = [80, 20, 0]
   \<and> map balance (users (state
      (mergeOperations exGen exSnapshot [exTransfer ''t1'' ''b'' 10 5] 10000000 10000000)))
      = [90, 10, 0]
   \<and> map balance (users (state (mergeOperations exGen
      (toSave (mergeOperations exGen exSnapshot [exTransfer ''t1'' ''b'' 10 5] 10000000 10000000))
      [exTransfer ''t1'' ''b'' 10 5] 10000001 10000001))) = [80, 20, 0]"
  by (simp add: merge_defs applyOperation_def applyTransfer_def aux_defs ex_defs Let_def)

section \<open>Facts about the helpers\<close>

lemma bump_simps [simp]:
  "users (bump st) = users st" "listings (bump st) = listings st" "rights (bump st) = rights st"
  "txs (bump st) = txs st" "notifications (bump st) = notifications st"
  "vTick (bump st) = vTick st + 1"
  by (simp_all add: bump_def orElse_def)

lemma pushTx_simps [simp]:
  "users (pushTx sl t st) = users st" "listings (pushTx sl t st) = listings st"
  "rights (pushTx sl t st) = rights st" "notifications (pushTx sl t st) = notifications st"
  "vTick (pushTx sl t st) = vTick st"
  by (simp_all add: pushTx_def)

lemma markSold_simps [simp]:
  "sellerId (markSold l) = sellerId l" "price (markSold l) = price l" "qty (markSold l) = qty l"
  "l_id (markSold l) = l_id l"
  by (simp_all add: markSold_def Let_def)

lemma restock_simps [simp]:
  "sellerId (restock l) = sellerId l" "price (restock l) = price l" "qty (restock l) = qty l"
  "l_id (restock l) = l_id l"
  by (simp_all add: restock_def Let_def)





lemma map_upd_invariant:
  assumes "\<And>x. g (f x) = g x"
  shows "map g (upd i f xs) = map g xs"
proof (cases "i < length xs")
  case True
  then show ?thesis
    by (simp add: upd_def map_update assms) (metis list_update_id nth_map)
next
  case False
  then show ?thesis by (simp add: upd_def list_update_beyond)
qed

lemma map_id_credit [simp]: "map u_id (upd i (credit d) us) = map u_id us"
  by (rule map_upd_invariant) (simp add: credit_def)

lemma map_name_credit [simp]: "map u_name (upd i (credit d) us) = map u_name us"
  by (rule map_upd_invariant) (simp add: credit_def)

lemma credit_simps [simp]:
  "balance (credit d u) = balance u + d" "u_id (credit d u) = u_id u" "u_name (credit d u) = u_name u"
  "streakCount (credit d u) = streakCount u"
  by (simp_all add: credit_def)




section \<open>Conservation\<close>









section \<open>Buying a listing\<close>








section \<open>How one operation changes the listings\<close>



















lemma listings_prune [simp]: "listings (state (prune now now2 r)) = listings (state r)"
  by (simp add: prune_def Let_def)



section \<open>The stock invariant\<close>








section \<open>Balances in the exact range\<close>















section \<open>A transfer of a negative amount\<close>

text \<open>
  C4, at a transfer whose amount is negative. Alice, who holds 100, transfers the amount
  -10 to bob, who holds nothing: the check of alice's balance against the amount passes,
  alice's balance becomes 110 and bob's becomes -10. The handler debits the recipient
  without checking the recipient's balance.
\<close>

theorem negative_transfer_debits_recipient:
  "map balance (users exState) = [100, 0, 0]
   \<and> map balance (users (state
        (mergeOperations exGen exSnapshot [exTransfer ''t1'' ''b'' (- 10) 5] 10 10)))
       = [110, - 10, 0]
   \<and> newConflicts (mergeOperations exGen exSnapshot [exTransfer ''t1'' ''b'' (- 10) 5] 10 10) = []"
  by (simp add: merge_defs applyOperation_def applyTransfer_def aux_defs ex_defs Let_def)

section \<open>What the other handlers do to the version counter\<close>

lemma vTick_transfer:
  "applyTransfer gen n st data ts uid sl = Inr (n', st', out) \<Longrightarrow>
   vTick st' = vTick st + (if out = Success then 1 else 0)"
  by (auto simp: applyTransfer_def Let_def split: option.splits if_splits)

lemma vTick_buy:
  "applyBuyListing gen n st data ts uid sl = Inr (n', st', out) \<Longrightarrow>
   vTick st' = vTick st + (if out = Success then 1 else 0)"
  by (auto simp: applyBuyListing_def Let_def split: option.splits if_splits)

lemma vTick_create:
  "applyCreateListing gen n st data ts uid sl = Inr (n', st', out) \<Longrightarrow>
   vTick st' = vTick st + (if out = Success then 1 else 0)"
  by (auto simp: applyCreateListing_def Let_def split: option.splits if_splits)

lemma vTick_toggle:
  "applyToggleListing gen n st data ts uid sl = Inr (n', st', out) \<Longrightarrow>
   vTick st' = vTick st + (if out = Success then 1 else 0)"
  by (auto simp: applyToggleListing_def Let_def split: option.splits if_splits)

lemma vTick_delete:
  "applyDeleteListing gen n st data ts uid sl = Inr (n', st', out) \<Longrightarrow>
   vTick st' = vTick st + (if out = Success then 1 else 0)"
  by (auto simp: applyDeleteListing_def Let_def split: option.splits if_splits)

lemma vTick_register:
  "applyRegisterUser gen n st data ts sl = Inr (n', st', out) \<Longrightarrow>
   vTick st' = vTick st + (if out = Success then 1 else 0)"
  by (auto simp: applyRegisterUser_def Let_def split: option.splits if_splits)

lemma vTick_morning:
  "applyMorningClaim gen n st data ts uid sl = Inr (n', st', out) \<Longrightarrow>
   vTick st' = vTick st + (if out = Success then 1 else 0)"
  by (auto simp: applyMorningClaim_def Let_def split: option.splits if_splits)

lemma vTick_roulette:
  "applyRoulette gen n st data ts uid sl = Inr (n', st', out) \<Longrightarrow>
   vTick st' = vTick st + (if out = Success then 1 else 0)"
  by (auto simp: applyRoulette_def Let_def split: option.splits if_splits)

lemma vTick_request:
  "applyBuyerRequest gen n st data ts uid sl = Inr (n', st', out) \<Longrightarrow>
   vTick st' = vTick st + (if out = Success then 1 else 0)"
  by (auto simp: applyBuyerRequest_def Let_def split: option.splits if_splits)

lemma vTick_respond:
  "applySellerRespond gen n st data ts uid sl = Inr (n', st', out) \<Longrightarrow>
   vTick st' = vTick st + (if out = Success then 1 else 0)"
  by (auto simp: applySellerRespond_def Let_def split: option.splits if_splits)

lemma vTick_report:
  "applyReportExecution gen n st data ts uid sl = Inr (n', st', out) \<Longrightarrow>
   vTick st' = vTick st + (if out = Success then 1 else 0)"
  by (auto simp: applyReportExecution_def Let_def split: option.splits if_splits)

lemma vTick_confirm:
  "applyBuyerConfirm gen n st data ts uid sl = Inr (n', st', out) \<Longrightarrow>
   vTick st' = vTick st + (if out = Success then 1 else 0)"
  by (auto simp: applyBuyerConfirm_def Let_def split: option.splits if_splits)

lemma vTick_reject:
  "applyBuyerReject gen n st data ts uid sl = Inr (n', st', out) \<Longrightarrow>
   vTick st' = vTick st + (if out = Success then 1 else 0)"
  by (auto simp: applyBuyerReject_def Let_def split: option.splits if_splits)

lemma vTick_refund:
  "applySellerRefund gen n st data ts uid sl = Inr (n', st', out) \<Longrightarrow>
   vTick st' = vTick st + (if out = Success then 1 else 0)"
  by (auto simp: applySellerRefund_def Let_def split: option.splits if_splits)

lemma vTick_finalize:
  "applyBuyerFinalize gen n st data ts uid sl = Inr (n', st', out) \<Longrightarrow>
   vTick st' = vTick st + (if out = Success then 1 else 0)"
  by (auto simp: applyBuyerFinalize_def Let_def split: option.splits if_splits)

lemma vTick_sendMessage:
  "applySendMessage gen n st data ts = Inr (n', st', out) \<Longrightarrow> vTick st' = vTick st"
  by (auto simp: applySendMessage_def split: option.splits if_splits)

lemmas vTick_handlers = vTick_transfer vTick_buy vTick_create vTick_toggle vTick_delete
  vTick_register vTick_morning vTick_roulette vTick_request vTick_respond vTick_report
  vTick_confirm vTick_reject vTick_refund vTick_finalize

lemma vTick_applyOperation:
  assumes "applyOperation gen n st op = Inr (n', st', out)"
  shows "vTick st' =
     vTick st + (if out = Success \<and> op_type op \<noteq> ''send_message'' then 1 else 0)"
  using assms
  by (auto simp: applyOperation_def Let_def split: if_splits
      dest: vTick_handlers vTick_sendMessage)

lemma vTick_mergeStep: "vTick (state (snd nr)) \<le> vTick (state (snd (mergeStep gen nr op)))"
  by (auto simp: mergeStep_def split: sum.splits dest!: vTick_applyOperation)

lemma vTick_mergeLoop: "vTick (state (snd nr)) \<le> vTick (state (snd (mergeLoop gen nr xs)))"
proof (induction xs arbitrary: nr)
  case Nil
  then show ?case by simp
next
  case (Cons op ops)
  from vTick_mergeStep [of nr gen op] Cons.IH [of "mergeStep gen nr op"]
  show ?case by simp
qed

lemma vTick_never_decreases:
  "vTick (cur_state current) \<le> vTick (state (mergeOperations gen current newOperations now now2))"
  using vTick_mergeLoop [of "(0, initResult current)" gen
      "unprocessedOps (cur_processedOps current) newOperations"]
  by (simp add: mergeOperations_def initResult_def prune_def Let_def)

end
